theory Spec2Isabelle
  imports Main "HOL-Library.Sublist"
begin

section \<open>Vehicle rental service: the router of \<open>src/routers/auto.py\<close>\<close>

text \<open>
  The router is a set of FastAPI handlers over one SQLAlchemy table. Each handler is
  embedded as one function of its declared parameters, of the table before the request
  and of the outcome of its \<open>current_user\<close> dependency; it returns the response
  (an error or a value) together with the table after the request.
\<close>

subsection \<open>Errors\<close>

text \<open>
  \<open>HTTPException(status_code, detail)\<close> is what the handlers and dependencies raise;
  \<open>RequestValidationError\<close> is what FastAPI raises when a declared parameter
  constraint (\<open>Path(gt=0)\<close>, \<open>Query(ge=..., le=...)\<close>) is violated, answered with 422.
\<close>

datatype error = HTTPException int string | RequestValidationError

fun status_code :: "error \<Rightarrow> int" where
  "status_code (HTTPException c d) = c"
| "status_code RequestValidationError = 422"

definition error_status :: "error + 'a \<Rightarrow> int option" where
  "error_status r = (case r of Inl e \<Rightarrow> Some (status_code e) | Inr v \<Rightarrow> None)"

subsection \<open>Python's \<open>str(int)\<close>, used by the f-strings of the details\<close>

fun str_nat :: "nat \<Rightarrow> string" where
  "str_nat n =
     (if n < 10 then [''0123456789'' ! n]
      else str_nat (n div 10) @ [''0123456789'' ! (n mod 10)])"

declare str_nat.simps [simp del]

definition str_int :: "int \<Rightarrow> string" where
  "str_int i = (if i < 0 then CHR ''-'' # str_nat (nat (- i)) else str_nat (nat i))"

subsection \<open>Data model\<close>

text \<open>
  \<open>AutoCreate\<close> is the request body of creation, \<open>AutoModel\<close> a row of the table
  (the same columns and the primary key \<open>id\<close>, here \<open>id_col\<close>), \<open>AutoUpdate\<close> the
  body of a partial update, every field \<open>Optional\<close> (the fields are prefixed with
  \<open>upd_\<close> to keep them apart from the columns). The declarations of the three
  classes are not part of the sources at hand; the router fixes the field names, that
  \<open>status\<close> is a boolean (\<open>AutoModel.status.is_(True)\<close>, \<open>not auto.status\<close>) and
  that the price is a number compared with \<open>0\<close> and multiplied by an \<open>int\<close>. The
  numeric type of the price is a parameter \<open>'p\<close>, an ordered ring without zero
  divisors (\<open>int\<close>, \<open>rat\<close>; not a floating-point type).
\<close>

text \<open>
  Python's \<open>str\<close> is a sequence of Unicode code points, and SQL's \<open>LIKE\<close> counts
  characters: a text column and a text filter are the lists of their code points, one
  element to the character. \<open>str_lit\<close> reads an ASCII literal as such a text. The
  details of the errors are ASCII literals and decimal digits, where a byte is a
  character, and stay \<open>string\<close>.
\<close>

type_synonym str = "nat list"

definition str_lit :: "string \<Rightarrow> str" where
  "str_lit s = map of_char s"

record 'p AutoCreate =
  brand :: str
  model :: str
  jahr :: int
  preis_pro_stunde :: 'p
  status :: bool

record 'p AutoModel = "'p AutoCreate" +
  id_col :: int

record 'p AutoUpdate =
  upd_brand :: "str option"
  upd_model :: "str option"
  upd_jahr :: "int option"
  upd_preis_pro_stunde :: "'p option"
  upd_status :: "bool option"

text \<open>The dictionary returned by \<open>calculate_total_price\<close>, one field per key.\<close>

record 'p PriceResponse =
  res_auto_id :: int
  res_rental_duration_hours :: int
  res_price_per_hour :: 'p
  res_total_price :: 'p

text \<open>The table behind \<open>db.query(AutoModel)\<close>: its rows in storage order.\<close>

type_synonym 'p Session = "'p AutoModel list"

text \<open>\<open>db.query(AutoModel).filter(AutoModel.id == auto_id).first()\<close>\<close>

definition first_by_id :: "int \<Rightarrow> 'p Session \<Rightarrow> 'p AutoModel option" where
  "first_by_id auto_id db = find (\<lambda>a. id_col a = auto_id) db"

text \<open>
  Modelled from the spec: the primary key of the table, whose declaration
  (\<open>models/auto.py\<close>) is not part of the sources at hand. The spec says the id is a
  "unique identifier, assigned by the store on creation", and ids are positive integers.
\<close>

definition wf_store :: "'p Session \<Rightarrow> bool" where
  "wf_store db = (list_all (\<lambda>a. 0 < id_col a) db \<and> distinct (map id_col db))"

text \<open>
  Modelled from the spec: the id the store assigns to a new row (\<open>db.add\<close>,
  \<open>db.commit\<close>, \<open>db.refresh\<close>), one more than the largest id in the table.
\<close>

definition fresh_id :: "'p Session \<Rightarrow> int" where
  "fresh_id db = fold max (map id_col db) 0 + 1"

subsection \<open>The role dependencies\<close>

datatype Role = Owner | Customer | Guest | Unauthenticated

type_synonym User = Role

text \<open>
  Modelled from the spec: \<open>owner_required\<close> of \<open>services/dependencies.py\<close>, which
  is not part of the sources at hand. The spec's policy table allows owner-only operations
  to the role owner alone; every other role, and an unauthenticated caller, is denied
  with AuthorizationError (403). The spec fixes the status code, not the detail.
\<close>

definition owner_required :: "Role \<Rightarrow> error + User" where
  "owner_required r = (if r = Owner then Inr r else Inl (HTTPException 403 ''Forbidden''))"

text \<open>
  Modelled from the spec: \<open>owner_or_customer_required\<close> of
  \<open>services/dependencies.py\<close>, allowing the roles owner and customer.
\<close>

definition owner_or_customer_required :: "Role \<Rightarrow> error + User" where
  "owner_or_customer_required r =
     (if r = Owner \<or> r = Customer then Inr r else Inl (HTTPException 403 ''Forbidden''))"

subsection \<open>SQL \<open>ILIKE\<close>\<close>

text \<open>
  \<open>column.ilike(pattern)\<close> is \<open>lower(column) LIKE lower(pattern)\<close>. In a
  \<open>LIKE\<close> pattern \<open>%\<close> (code point 37) stands for any sequence of characters,
  \<open>_\<close> (code point 95) for any one character, and the escape character, if there is
  one, makes the next pattern character literal. Two things are the database's, which is
  not part of the sources at hand, and are parameters: the escape character (none on
  SQLite, the backslash on PostgreSQL and MySQL) and the case folding \<open>lower\<close> of a
  character (ASCII letters only on SQLite, the letters of the locale on PostgreSQL).
\<close>

record dialect =
  like_escape :: "nat option"
  lower_char :: "nat \<Rightarrow> nat"

definition lower :: "dialect \<Rightarrow> str \<Rightarrow> str" where
  "lower d s = map (lower_char d) s"

fun like_match :: "nat option \<Rightarrow> str \<Rightarrow> str \<Rightarrow> bool" where
  "like_match esc [] s = (s = [])"
| "like_match esc (p # ps) [] =
     (if Some p = esc then False
      else if p = 37 then like_match esc ps []
      else False)"
| "like_match esc (p # ps) (c # cs) =
     (if Some p = esc then
        (case ps of [] \<Rightarrow> False | q # qs \<Rightarrow> c = q \<and> like_match esc qs cs)
      else if p = 37 then like_match esc ps (c # cs) \<or> like_match esc (p # ps) cs
      else if p = 95 then like_match esc ps cs
      else c = p \<and> like_match esc ps cs)"

definition ilike :: "dialect \<Rightarrow> str \<Rightarrow> str \<Rightarrow> bool" where
  "ilike d column pattern = like_match (like_escape d) (lower d pattern) (lower d column)"

subsection \<open>Writing a loaded row back\<close>

text \<open>
  \<open>db.commit()\<close> after attribute assignments writes the loaded object back to the row
  it was loaded from, the first row with its id; \<open>db.delete(auto)\<close> with
  \<open>db.commit()\<close> removes that row.
\<close>

fun flush_row :: "'p AutoModel \<Rightarrow> 'p Session \<Rightarrow> 'p Session" where
  "flush_row auto [] = []"
| "flush_row auto (r # rs) =
     (if id_col r = id_col auto then auto # rs else r # flush_row auto rs)"

fun delete_row :: "'p AutoModel \<Rightarrow> 'p Session \<Rightarrow> 'p Session" where
  "delete_row auto [] = []"
| "delete_row auto (r # rs) =
     (if id_col r = id_col auto then rs else r # delete_row auto rs)"

subsection \<open>The handlers\<close>

text \<open>
  FastAPI resolves the dependencies of a handler first (an \<open>HTTPException\<close> raised by
  \<open>current_user\<close>'s dependency ends the request), then validates the declared path and
  query parameters (422), then runs the body. The parameter \<open>current_user\<close> is the
  outcome of the dependency named in the handler's signature.
\<close>

text \<open>\<open>POST /auto\<close>, \<open>Depends(owner_required)\<close>\<close>

definition create_auto ::
  "('p::linordered_idom) AutoCreate \<Rightarrow> 'p Session \<Rightarrow> error + User
     \<Rightarrow> (error + 'p AutoModel) \<times> 'p Session" where
  "create_auto auto db current_user =
     (case current_user of
        Inl e \<Rightarrow> (Inl e, db)
      | Inr u \<Rightarrow>
          if preis_pro_stunde auto \<le> 0 then
            (Inl (HTTPException 400 ''Price per hour must be greater than 0.''), db)
          else
            let db_auto = \<lparr>brand = brand auto, model = model auto, jahr = jahr auto,
                           preis_pro_stunde = preis_pro_stunde auto, status = status auto,
                           id_col = fresh_id db\<rparr>
            in (Inr db_auto, db @ [db_auto]))"

text \<open>\<open>GET /autos\<close>, \<open>Depends(owner_required)\<close>\<close>

definition show_all_auto ::
  "'p Session \<Rightarrow> error + User \<Rightarrow> (error + 'p AutoModel list) \<times> 'p Session" where
  "show_all_auto db current_user =
     (case current_user of
        Inl e \<Rightarrow> (Inl e, db)
      | Inr u \<Rightarrow> let autos = filter (\<lambda>a. status a = True) db in (Inr autos, db))"

text \<open>
  \<open>GET /autos/search\<close>, \<open>Depends(owner_or_customer_required)\<close>. The query built by
  lines 71 to 81: a filter is added for a truthy \<open>brand\<close>, \<open>model\<close> and \<open>jahr\<close>
  (not \<open>None\<close>, not empty, not \<open>0\<close>) and for a \<open>status\<close> that is not \<open>None\<close>.
\<close>

definition search_query ::
  "dialect \<Rightarrow> str option \<Rightarrow> str option \<Rightarrow> int option \<Rightarrow> bool option
     \<Rightarrow> 'p Session \<Rightarrow> 'p AutoModel list" where
  "search_query d brand_q model_q jahr_q status_q db =
     (let query = db;
          query = (case brand_q of
                     None \<Rightarrow> query
                   | Some b \<Rightarrow>
                       if b \<noteq> [] then
                         filter (\<lambda>a. ilike d (brand a) (str_lit ''%'' @ b @ str_lit ''%'')) query
                       else query);
          query = (case model_q of
                     None \<Rightarrow> query
                   | Some m \<Rightarrow>
                       if m \<noteq> [] then
                         filter (\<lambda>a. ilike d (model a) (str_lit ''%'' @ m @ str_lit ''%'')) query
                       else query);
          query = (case jahr_q of
                     None \<Rightarrow> query
                   | Some j \<Rightarrow> if j \<noteq> 0 then filter (\<lambda>a. jahr a = j) query else query);
          query = (case status_q of
                     None \<Rightarrow> query
                   | Some s \<Rightarrow> filter (\<lambda>a. status a = s) query)
      in query)"

text \<open>
  \<open>now_year\<close> is the value of \<open>datetime.now().year\<close> in the signature
  (\<open>Query(None, ge=2000, le=datetime.now().year)\<close>); \<open>d\<close> is the database's
  dialect.
\<close>

definition search_auto ::
  "int \<Rightarrow> dialect \<Rightarrow> str option \<Rightarrow> str option \<Rightarrow> int option \<Rightarrow> bool option
     \<Rightarrow> 'p Session \<Rightarrow> error + User \<Rightarrow> (error + 'p AutoModel list) \<times> 'p Session" where
  "search_auto now_year d brand_q model_q jahr_q status_q db current_user =
     (case current_user of
        Inl e \<Rightarrow> (Inl e, db)
      | Inr u \<Rightarrow>
          if \<not> (case jahr_q of None \<Rightarrow> True | Some j \<Rightarrow> 2000 \<le> j \<and> j \<le> now_year) then
            (Inl RequestValidationError, db)
          else
            let result = search_query d brand_q model_q jahr_q status_q db in
            if result = [] then (Inl (HTTPException 404 ''No matching autos found.''), db)
            else (Inr result, db))"

text \<open>\<open>GET /autos/{auto_id}\<close>, \<open>auto_id: int\<close>, \<open>Depends(owner_required)\<close>\<close>

definition show_auto ::
  "int \<Rightarrow> 'p Session \<Rightarrow> error + User \<Rightarrow> (error + 'p AutoModel) \<times> 'p Session" where
  "show_auto auto_id db current_user =
     (case current_user of
        Inl e \<Rightarrow> (Inl e, db)
      | Inr u \<Rightarrow>
          (case first_by_id auto_id db of
             None \<Rightarrow>
               (Inl (HTTPException 404 (''Auto with ID '' @ str_int auto_id @ '' not found.'')), db)
           | Some auto_details \<Rightarrow> (Inr auto_details, db)))"

text \<open>\<open>PUT /autos/{auto_id}\<close>, \<open>auto_id: int\<close>, \<open>Depends(owner_required)\<close>\<close>

definition update_auto ::
  "int \<Rightarrow> ('p::linordered_idom) AutoUpdate \<Rightarrow> 'p Session \<Rightarrow> error + User
     \<Rightarrow> (error + 'p AutoModel) \<times> 'p Session" where
  "update_auto auto_id auto_update db current_user =
     (case current_user of
        Inl e \<Rightarrow> (Inl e, db)
      | Inr u \<Rightarrow>
          (case first_by_id auto_id db of
             None \<Rightarrow>
               (Inl (HTTPException 404
                      (''Auto with ID '' @ str_int auto_id @ '' does not exist.'')), db)
           | Some auto \<Rightarrow>
               if (case upd_preis_pro_stunde auto_update of None \<Rightarrow> False | Some p \<Rightarrow> p \<le> 0)
               then (Inl (HTTPException 400 ''Price per hour must be greater than 0.''), db)
               else
                 let auto = (case upd_preis_pro_stunde auto_update of
                               None \<Rightarrow> auto | Some p \<Rightarrow> auto\<lparr>preis_pro_stunde := p\<rparr>);
                     auto = (case upd_brand auto_update of
                               None \<Rightarrow> auto | Some b \<Rightarrow> auto\<lparr>brand := b\<rparr>);
                     auto = (case upd_model auto_update of
                               None \<Rightarrow> auto | Some m \<Rightarrow> auto\<lparr>model := m\<rparr>);
                     auto = (case upd_jahr auto_update of
                               None \<Rightarrow> auto | Some j \<Rightarrow> auto\<lparr>jahr := j\<rparr>);
                     auto = (case upd_status auto_update of
                               None \<Rightarrow> auto | Some s \<Rightarrow> auto\<lparr>status := s\<rparr>)
                 in (Inr auto, flush_row auto db)))"

text \<open>
  \<open>POST /autos/{auto_id}/calculate-price\<close>, \<open>auto_id: int = Path(..., gt=0)\<close>,
  \<open>mietdauer_stunden: int = Query(..., gt=0)\<close>, \<open>Depends(owner_or_customer_required)\<close>
\<close>

definition calculate_total_price ::
  "int \<Rightarrow> int \<Rightarrow> ('p::linordered_idom) Session \<Rightarrow> error + User
     \<Rightarrow> (error + 'p PriceResponse) \<times> 'p Session" where
  "calculate_total_price auto_id mietdauer_stunden db current_user =
     (case current_user of
        Inl e \<Rightarrow> (Inl e, db)
      | Inr u \<Rightarrow>
          if \<not> (0 < auto_id \<and> 0 < mietdauer_stunden) then (Inl RequestValidationError, db)
          else
            (case first_by_id auto_id db of
               None \<Rightarrow>
                 (Inl (HTTPException 404
                        (''Auto with ID '' @ str_int auto_id @ '' is not available.'')), db)
             | Some auto \<Rightarrow>
                 if \<not> status auto then
                   (Inl (HTTPException 400 ''The auto is currently not available.''), db)
                 else
                   let total_price = preis_pro_stunde auto * of_int mietdauer_stunden
                   in (Inr \<lparr>res_auto_id = auto_id,
                             res_rental_duration_hours = mietdauer_stunden,
                             res_price_per_hour = preis_pro_stunde auto,
                             res_total_price = total_price\<rparr>, db)))"

text \<open>\<open>DELETE /autos/{auto_id}\<close>, \<open>auto_id: int\<close>, \<open>Depends(owner_required)\<close>\<close>

definition delete_auto ::
  "int \<Rightarrow> 'p Session \<Rightarrow> error + User \<Rightarrow> (error + unit) \<times> 'p Session" where
  "delete_auto auto_id db current_user =
     (case current_user of
        Inl e \<Rightarrow> (Inl e, db)
      | Inr u \<Rightarrow>
          (case first_by_id auto_id db of
             None \<Rightarrow>
               (Inl (HTTPException 404 (''Auto with ID '' @ str_int auto_id @ '' not found.'')), db)
           | Some auto \<Rightarrow> (Inr (), delete_row auto db)))"

subsection \<open>The search as the spec words it\<close>

text \<open>
  The spec's reading of the search filters, to compare the query with: \<open>brand\<close> and
  \<open>model\<close> match case-insensitively as substrings, \<open>year\<close> and \<open>status\<close>
  match exactly, and the supplied filters are combined by a logical and. Two texts are
  equal case-insensitively when the database's case folding makes them equal.
\<close>

definition matches_spec ::
  "dialect \<Rightarrow> str option \<Rightarrow> str option \<Rightarrow> int option \<Rightarrow> bool option
     \<Rightarrow> 'p AutoModel \<Rightarrow> bool" where
  "matches_spec d brand_q model_q jahr_q status_q a =
     ((case brand_q of None \<Rightarrow> True | Some b \<Rightarrow> sublist (lower d b) (lower d (brand a))) \<and>
      (case model_q of None \<Rightarrow> True | Some m \<Rightarrow> sublist (lower d m) (lower d (model a))) \<and>
      (case jahr_q of None \<Rightarrow> True | Some j \<Rightarrow> jahr a = j) \<and>
      (case status_q of None \<Rightarrow> True | Some s \<Rightarrow> status a = s))"

text \<open>
  A filter text is plain for \<open>LIKE\<close> when, lower-cased as \<open>ilike\<close> does, it holds
  no wildcard and no escape character. A dialect is regular when its case folding keeps
  \<open>%\<close> and \<open>%\<close> is not its escape character, as in every SQL database.
\<close>

definition like_plain :: "dialect \<Rightarrow> str \<Rightarrow> bool" where
  "like_plain d t =
     list_all (\<lambda>c. c \<noteq> 37 \<and> c \<noteq> 95 \<and> Some c \<noteq> like_escape d) (lower d t)"

definition regular_dialect :: "dialect \<Rightarrow> bool" where
  "regular_dialect d = (lower_char d 37 = 37 \<and> like_escape d \<noteq> Some 37)"

subsection \<open>A database and a store to run the handlers on\<close>

text \<open>
  SQLite's dialect: no escape character, and a case folding of the ASCII letters
  \<open>A\<close> to \<open>Z\<close> (code points 65 to 90).
\<close>

definition ascii_lower :: "nat \<Rightarrow> nat" where
  "ascii_lower n = (if 65 \<le> n \<and> n \<le> 90 then n + 32 else n)"

definition sqlite :: dialect where
  "sqlite = \<lparr>like_escape = None, lower_char = ascii_lower\<rparr>"

text \<open>The two cars of the tests: an available BMW and a Tesla that is not available.\<close>

definition bmw :: "int AutoModel" where
  "bmw = \<lparr>brand = str_lit ''BMW'', model = str_lit ''sedan'', jahr = 2010,
           preis_pro_stunde = 30, status = True, id_col = 1\<rparr>"

definition tesla :: "int AutoModel" where
  "tesla = \<lparr>brand = str_lit ''Tesla'', model = str_lit ''model 3'', jahr = 2020,
             preis_pro_stunde = 50, status = False, id_col = 2\<rparr>"

section \<open>Properties\<close>

subsection \<open>Looking a row up by its id\<close>

lemma first_by_id_Some:
  "first_by_id auto_id db = Some a \<Longrightarrow> a \<in> set db \<and> id_col a = auto_id"
  unfolding first_by_id_def by (induction db) (auto split: if_splits)

lemma first_by_id_None: "first_by_id auto_id db = None \<longleftrightarrow> auto_id \<notin> id_col ` set db"
  unfolding first_by_id_def by (induction db) auto

lemma first_by_id_member:
  "distinct (map id_col db) \<Longrightarrow> a \<in> set db \<Longrightarrow> first_by_id (id_col a) db = Some a"
  unfolding first_by_id_def by (induction db) auto

lemma wf_store_positive: "wf_store db \<Longrightarrow> a \<in> set db \<Longrightarrow> 0 < id_col a"
  unfolding wf_store_def by (simp add: list_all_iff)

lemma wf_store_distinct: "wf_store db \<Longrightarrow> distinct (map id_col db)"
  unfolding wf_store_def by simp

lemma first_by_id_nonpositive:
  "wf_store db \<Longrightarrow> auto_id \<le> 0 \<Longrightarrow> first_by_id auto_id db = None"
  by (auto simp: first_by_id_None dest: wf_store_positive)

subsection \<open>Price calculation\<close>

text \<open>
  C1. For every row of the store with \<open>status = True\<close> and every duration \<open>h > 0\<close>,
  \<open>calculate_total_price\<close> answers with the id, the duration, the row's
  \<open>preis_pro_stunde\<close> and the total \<open>preis_pro_stunde * h\<close>, computed in the ring of
  the price, and leaves the store as it was. The store is one whose ids are the positive,
  pairwise distinct primary keys the database assigns; the caller has passed the role
  dependency.
\<close>

theorem calculate_total_price_available:
  fixes a :: "('p::linordered_idom) AutoModel"
  assumes "wf_store db" and "a \<in> set db" and "status a" and "0 < h"
  shows "calculate_total_price (id_col a) h db (Inr u) =
           (Inr \<lparr>res_auto_id = id_col a, res_rental_duration_hours = h,
                  res_price_per_hour = preis_pro_stunde a,
                  res_total_price = preis_pro_stunde a * of_int h\<rparr>, db)"
proof -
  have "first_by_id (id_col a) db = Some a"
    using assms(1,2) by (simp add: first_by_id_member wf_store_distinct)
  moreover have "0 < id_col a"
    using assms(1,2) by (rule wf_store_positive)
  ultimately show ?thesis
    using assms(3,4) by (simp add: calculate_total_price_def)
qed

theorem calculate_total_price_available_witness:
  "wf_store [bmw, tesla] \<and> bmw \<in> set [bmw, tesla] \<and> status bmw \<and> (0::int) < 5 \<and>
   calculate_total_price 1 5 [bmw, tesla] (Inr Customer) =
     (Inr \<lparr>res_auto_id = 1, res_rental_duration_hours = 5, res_price_per_hour = 30,
            res_total_price = 150\<rparr>, [bmw, tesla])"
  using calculate_total_price_available [of "[bmw, tesla]" bmw 5 Customer]
  by (simp add: wf_store_def bmw_def tesla_def)

text \<open>
  C2, as stated, fails for an id that is not positive: \<open>Path(..., gt=0)\<close> rejects it
  with 422 before the lookup, so an id that no row has is not answered with 404.
\<close>

theorem calculate_total_price_nonpositive_id_counterexample:
  "first_by_id 0 ([] :: int Session) = None \<and> (0::int) < 1 \<and>
   calculate_total_price 0 1 ([] :: int Session) (Inr Owner) = (Inl RequestValidationError, []) \<and>
   status_code RequestValidationError \<noteq> 404"
  by (simp add: calculate_total_price_def first_by_id_def)

text \<open>
  C2, amended. For every id \<open>> 0\<close> and every duration \<open>h > 0\<close>,
  \<open>calculate_total_price\<close> fails with 404 when no row has the id, and with 400
  ("The auto is currently not available.") when the row found has \<open>status = False\<close>,
  whatever \<open>h\<close> is; the store is unchanged. The lookup comes first: a missing row is
  404, never 400.
\<close>

theorem calculate_total_price_errors:
  fixes db :: "('p::linordered_idom) Session"
  assumes "0 < auto_id" and "0 < h"
  shows "(auto_id \<notin> id_col ` set db \<longrightarrow>
            calculate_total_price auto_id h db (Inr u) =
              (Inl (HTTPException 404
                     (''Auto with ID '' @ str_int auto_id @ '' is not available.'')), db)) \<and>
         (\<forall>a. first_by_id auto_id db = Some a \<and> \<not> status a \<longrightarrow>
            calculate_total_price auto_id h db (Inr u) =
              (Inl (HTTPException 400 ''The auto is currently not available.''), db))"
proof (intro conjI impI allI)
  assume "auto_id \<notin> id_col ` set db"
  then have "first_by_id auto_id db = None" by (simp add: first_by_id_None)
  then show "calculate_total_price auto_id h db (Inr u) =
              (Inl (HTTPException 404
                     (''Auto with ID '' @ str_int auto_id @ '' is not available.'')), db)"
    using assms by (simp add: calculate_total_price_def)
next
  fix a assume "first_by_id auto_id db = Some a \<and> \<not> status a"
  then show "calculate_total_price auto_id h db (Inr u) =
              (Inl (HTTPException 400 ''The auto is currently not available.''), db)"
    using assms by (simp add: calculate_total_price_def)
qed

theorem calculate_total_price_errors_witness:
  "calculate_total_price 99999 2 [bmw, tesla] (Inr Owner) =
     (Inl (HTTPException 404 ''Auto with ID 99999 is not available.''), [bmw, tesla]) \<and>
   calculate_total_price 2 3 [bmw, tesla] (Inr Owner) =
     (Inl (HTTPException 400 ''The auto is currently not available.''), [bmw, tesla])"
proof -
  have s: "str_int 99999 = ''99999''" by (simp add: str_int_def str_nat.simps)
  have n: "(99999::int) \<notin> id_col ` set [bmw, tesla]"
    by (simp add: bmw_def tesla_def)
  have f: "first_by_id 2 [bmw, tesla] = Some tesla \<and> \<not> status tesla"
    by (simp add: first_by_id_def bmw_def tesla_def)
  have p: "(0::int) < 99999" "(0::int) < 2" "(0::int) < 3" by simp_all
  note a = calculate_total_price_errors [of 99999 2 "[bmw, tesla]" Owner, OF p(1) p(2)]
  note b = calculate_total_price_errors [of 2 3 "[bmw, tesla]" Owner, OF p(2) p(3)]
  from a n s have "calculate_total_price 99999 2 [bmw, tesla] (Inr Owner) =
     (Inl (HTTPException 404 ''Auto with ID 99999 is not available.''), [bmw, tesla])"
    by simp
  moreover from b f have "calculate_total_price 2 3 [bmw, tesla] (Inr Owner) =
     (Inl (HTTPException 400 ''The auto is currently not available.''), [bmw, tesla])"
    by blast
  ultimately show ?thesis by simp
qed

subsection \<open>Writing a row back keeps the ids\<close>

lemma first_by_id_flush_row:
  "first_by_id (id_col auto) db = Some a \<Longrightarrow> first_by_id (id_col auto) (flush_row auto db) = Some auto"
  unfolding first_by_id_def by (induction db) (auto split: if_splits)

lemma flush_row_other:
  "i \<noteq> id_col auto \<Longrightarrow> first_by_id i (flush_row auto db) = first_by_id i db"
  unfolding first_by_id_def by (induction db) auto

lemma length_flush_row: "length (flush_row auto db) = length db"
  by (induction db) auto

lemma map_id_col_flush_row: "map id_col (flush_row auto db) = map id_col db"
  by (induction db) auto

subsection \<open>The handlers keep the primary keys positive and distinct\<close>

text \<open>
  The stores that the handlers can reach from the empty table satisfy \<open>wf_store\<close>:
  creation appends a row with a new, positive id, an update writes a row back under its
  id, a deletion removes a row.
\<close>

lemma wf_store_ids:
  "wf_store db = (list_all (\<lambda>i. 0 < i) (map id_col db) \<and> distinct (map id_col db))"
  by (simp add: wf_store_def list_all_iff)

lemma fold_max_lower: "(a::int) \<le> fold max xs a"
proof (induction xs arbitrary: a)
  case Nil
  show ?case by simp
next
  case (Cons x xs)
  have "a \<le> max x a" by simp
  also have "\<dots> \<le> fold max xs (max x a)" by (rule Cons.IH)
  finally show ?case by simp
qed

lemma fold_max_upper: "x \<in> set xs \<Longrightarrow> (x::int) \<le> fold max xs a"
proof (induction xs arbitrary: a)
  case Nil
  then show ?case by simp
next
  case (Cons y xs)
  show ?case
  proof (cases "x = y")
    case True
    have "x \<le> max y a" using True by simp
    also have "\<dots> \<le> fold max xs (max y a)" by (rule fold_max_lower)
    finally show ?thesis by simp
  next
    case False
    with Cons.prems have "x \<in> set xs" by simp
    then have "x \<le> fold max xs (max y a)" by (rule Cons.IH)
    then show ?thesis by simp
  qed
qed

lemma fresh_id_positive: "0 < fresh_id db"
proof -
  have "0 \<le> fold max (map id_col db) 0" by (rule fold_max_lower)
  then show ?thesis by (simp add: fresh_id_def)
qed

lemma fresh_id_new: "fresh_id db \<notin> id_col ` set db"
proof
  assume "fresh_id db \<in> id_col ` set db"
  then have "fresh_id db \<in> set (map id_col db)" by simp
  then have "fresh_id db \<le> fold max (map id_col db) 0" by (rule fold_max_upper)
  then show False by (simp add: fresh_id_def)
qed

lemma wf_store_create_auto:
  assumes "wf_store db"
  shows "wf_store (snd (create_auto auto db current_user))"
proof (cases "\<exists>u. current_user = Inr u \<and> \<not> preis_pro_stunde auto \<le> 0")
  case False
  then have "snd (create_auto auto db current_user) = db"
    by (auto simp: create_auto_def split: sum.splits)
  with assms show ?thesis by simp
next
  case True
  then obtain u where "current_user = Inr u" "\<not> preis_pro_stunde auto \<le> 0" by blast
  then have "map id_col (snd (create_auto auto db current_user)) = map id_col db @ [fresh_id db]"
    by (simp add: create_auto_def Let_def)
  with assms fresh_id_positive [of db] fresh_id_new [of db] show ?thesis
    by (simp add: wf_store_ids)
qed

lemma update_auto_store:
  "snd (update_auto auto_id auto_update db current_user) = db \<or>
   (\<exists>S'. snd (update_auto auto_id auto_update db current_user) = flush_row S' db)"
  by (auto simp: update_auto_def Let_def split: sum.splits option.splits)

lemma wf_store_update_auto:
  assumes "wf_store db"
  shows "wf_store (snd (update_auto auto_id auto_update db current_user))"
  using assms update_auto_store [of auto_id auto_update db current_user]
  by (auto simp: wf_store_ids map_id_col_flush_row)

lemma set_delete_row: "set (map id_col (delete_row auto db)) \<subseteq> set (map id_col db)"
  by (induction db) auto

lemma distinct_delete_row:
  "distinct (map id_col db) \<Longrightarrow> distinct (map id_col (delete_row auto db))"
proof (induction db)
  case Nil
  then show ?case by simp
next
  case (Cons r rs)
  then show ?case using set_delete_row [of auto rs] by auto
qed

lemma wf_store_delete_row: "wf_store db \<Longrightarrow> wf_store (delete_row auto db)"
  using set_delete_row [of auto db]
  by (auto simp: wf_store_ids list_all_iff distinct_delete_row)

lemma wf_store_delete_auto:
  assumes "wf_store db"
  shows "wf_store (snd (delete_auto auto_id db current_user))"
  using assms by (auto simp: delete_auto_def wf_store_delete_row split: sum.splits option.splits)

lemma delete_row_removes:
  "distinct (map id_col db) \<Longrightarrow> first_by_id (id_col auto) (delete_row auto db) = None"
  unfolding first_by_id_None by (induction db) (use set_delete_row in auto)

subsection \<open>Price validation on create and update\<close>

text \<open>
  C3. With a price \<open>\<le> 0\<close>, \<open>create_auto\<close> fails with 400 and the store is the
  store before: no row is inserted. For a row that exists, \<open>update_auto\<close> with a
  supplied price \<open>\<le> 0\<close> fails with 400 and the store is the store before: no field
  of any row has changed, whatever other fields the update supplies.
\<close>

theorem nonpositive_price_rejected:
  fixes auto :: "('p::linordered_idom) AutoCreate" and db :: "'p Session"
  shows "(preis_pro_stunde auto \<le> 0 \<longrightarrow>
            create_auto auto db (Inr u) =
              (Inl (HTTPException 400 ''Price per hour must be greater than 0.''), db)) \<and>
         (first_by_id auto_id db = Some a \<and> upd_preis_pro_stunde auto_update = Some p \<and> p \<le> 0 \<longrightarrow>
            update_auto auto_id auto_update db (Inr u) =
              (Inl (HTTPException 400 ''Price per hour must be greater than 0.''), db))"
  by (simp add: create_auto_def update_auto_def)

theorem nonpositive_price_rejected_witness:
  "create_auto \<lparr>brand = str_lit ''BMW'', model = str_lit ''sedan'', jahr = 2010, preis_pro_stunde = 0,
                status = True\<rparr> [bmw, tesla] (Inr Owner) =
     (Inl (HTTPException 400 ''Price per hour must be greater than 0.''), [bmw, tesla]) \<and>
   update_auto 1 \<lparr>upd_brand = Some (str_lit ''Audi''), upd_model = None, upd_jahr = None,
                  upd_preis_pro_stunde = Some (- 5), upd_status = Some False\<rparr>
       [bmw, tesla] (Inr Owner) =
     (Inl (HTTPException 400 ''Price per hour must be greater than 0.''), [bmw, tesla])"
proof -
  have f: "first_by_id 1 [bmw, tesla] = Some bmw"
    by (simp add: first_by_id_def bmw_def)
  note t = nonpositive_price_rejected [of
      "\<lparr>brand = str_lit ''BMW'', model = str_lit ''sedan'', jahr = 2010, preis_pro_stunde = 0, status = True\<rparr>"
      "[bmw, tesla]" Owner 1 bmw
      "\<lparr>upd_brand = Some (str_lit ''Audi''), upd_model = None, upd_jahr = None,
        upd_preis_pro_stunde = Some (- 5), upd_status = Some False\<rparr>" "- 5"]
  from t f show ?thesis by simp
qed

subsection \<open>Partial update\<close>

text \<open>
  C5. For a row \<open>S\<close> found under the id and an update \<open>U\<close> whose price, if supplied,
  is positive, \<open>update_auto\<close> returns a row \<open>S'\<close> in which every field that \<open>U\<close>
  supplies has the supplied value and every other field, and the id, has the value it has
  in \<open>S\<close>; \<open>S'\<close> is written to the store and is what a lookup of the id finds
  afterwards.
\<close>

theorem update_auto_partial:
  fixes db :: "('p::linordered_idom) Session"
  assumes "first_by_id auto_id db = Some S"
    and "case upd_preis_pro_stunde U of None \<Rightarrow> True | Some p \<Rightarrow> 0 < p"
  shows "\<exists>S'. update_auto auto_id U db (Inr u) = (Inr S', flush_row S' db) \<and>
           first_by_id auto_id (flush_row S' db) = Some S' \<and>
           id_col S' = id_col S \<and>
           brand S' = (case upd_brand U of None \<Rightarrow> brand S | Some b \<Rightarrow> b) \<and>
           model S' = (case upd_model U of None \<Rightarrow> model S | Some m \<Rightarrow> m) \<and>
           jahr S' = (case upd_jahr U of None \<Rightarrow> jahr S | Some j \<Rightarrow> j) \<and>
           preis_pro_stunde S' =
             (case upd_preis_pro_stunde U of None \<Rightarrow> preis_pro_stunde S | Some p \<Rightarrow> p) \<and>
           status S' = (case upd_status U of None \<Rightarrow> status S | Some s \<Rightarrow> s)"
proof -
  define S1 where "S1 = (case upd_preis_pro_stunde U of
                           None \<Rightarrow> S | Some p \<Rightarrow> S\<lparr>preis_pro_stunde := p\<rparr>)"
  define S2 where "S2 = (case upd_brand U of None \<Rightarrow> S1 | Some b \<Rightarrow> S1\<lparr>brand := b\<rparr>)"
  define S3 where "S3 = (case upd_model U of None \<Rightarrow> S2 | Some m \<Rightarrow> S2\<lparr>model := m\<rparr>)"
  define S4 where "S4 = (case upd_jahr U of None \<Rightarrow> S3 | Some j \<Rightarrow> S3\<lparr>jahr := j\<rparr>)"
  define S5 where "S5 = (case upd_status U of None \<Rightarrow> S4 | Some s \<Rightarrow> S4\<lparr>status := s\<rparr>)"
  have valid: "\<not> (case upd_preis_pro_stunde U of None \<Rightarrow> False | Some p \<Rightarrow> p \<le> 0)"
    using assms(2) by (simp split: option.splits)
  have res: "update_auto auto_id U db (Inr u) = (Inr S5, flush_row S5 db)"
    using assms(1) valid
    by (simp add: update_auto_def Let_def S1_def S2_def S3_def S4_def S5_def
          split: option.splits)
  have idS: "id_col S = auto_id"
    using assms(1) by (simp add: first_by_id_Some)
  have id5: "id_col S5 = id_col S"
    by (simp add: S1_def S2_def S3_def S4_def S5_def split: option.splits)
  have "first_by_id (id_col S5) db = Some S"
    using assms(1) idS id5 by simp
  then have "first_by_id (id_col S5) (flush_row S5 db) = Some S5"
    by (rule first_by_id_flush_row)
  then have look: "first_by_id auto_id (flush_row S5 db) = Some S5"
    using idS id5 by simp
  have b: "brand S5 = (case upd_brand U of None \<Rightarrow> brand S | Some b \<Rightarrow> b)"
    by (simp add: S1_def S2_def S3_def S4_def S5_def split: option.splits)
  have m: "model S5 = (case upd_model U of None \<Rightarrow> model S | Some m \<Rightarrow> m)"
    by (simp add: S1_def S2_def S3_def S4_def S5_def split: option.splits)
  have j: "jahr S5 = (case upd_jahr U of None \<Rightarrow> jahr S | Some j \<Rightarrow> j)"
    by (simp add: S1_def S2_def S3_def S4_def S5_def split: option.splits)
  have p: "preis_pro_stunde S5 =
             (case upd_preis_pro_stunde U of None \<Rightarrow> preis_pro_stunde S | Some p \<Rightarrow> p)"
    by (simp add: S1_def S2_def S3_def S4_def S5_def split: option.splits)
  have s: "status S5 = (case upd_status U of None \<Rightarrow> status S | Some s \<Rightarrow> s)"
    by (simp add: S1_def S2_def S3_def S4_def S5_def split: option.splits)
  from res look id5 b m j p s show ?thesis by blast
qed

theorem update_auto_partial_witness:
  "update_auto 1 \<lparr>upd_brand = None, upd_model = None, upd_jahr = None,
                  upd_preis_pro_stunde = Some 35, upd_status = Some False\<rparr>
       [bmw, tesla] (Inr Owner) =
     (Inr (bmw\<lparr>preis_pro_stunde := 35, status := False\<rparr>),
      [bmw\<lparr>preis_pro_stunde := 35, status := False\<rparr>, tesla]) \<and>
   brand (bmw\<lparr>preis_pro_stunde := 35, status := False\<rparr>) = brand bmw \<and>
   model (bmw\<lparr>preis_pro_stunde := 35, status := False\<rparr>) = model bmw \<and>
   jahr (bmw\<lparr>preis_pro_stunde := 35, status := False\<rparr>) = jahr bmw"
proof -
  let ?U = "\<lparr>upd_brand = None, upd_model = None, upd_jahr = None,
             upd_preis_pro_stunde = Some (35::int), upd_status = Some False\<rparr>"
  have f: "first_by_id 1 [bmw, tesla] = Some bmw"
    by (simp add: first_by_id_def bmw_def)
  have v: "case upd_preis_pro_stunde ?U of None \<Rightarrow> True | Some p \<Rightarrow> 0 < p"
    by simp
  from update_auto_partial [OF f v, of Owner]
  obtain S' where r: "update_auto 1 ?U [bmw, tesla] (Inr Owner) = (Inr S', flush_row S' [bmw, tesla])"
    and i: "id_col S' = id_col bmw"
    and b: "brand S' = brand bmw" and m: "model S' = model bmw" and j: "jahr S' = jahr bmw"
    and p: "preis_pro_stunde S' = 35" and s: "status S' = False"
    by auto
  have "S' = bmw\<lparr>preis_pro_stunde := 35, status := False\<rparr>"
    using i b m j p s by (cases S') (simp add: bmw_def)
  with r show ?thesis by (simp add: bmw_def)
qed

subsection \<open>Owner-only handlers\<close>

text \<open>
  C6. For every role other than owner (customer, guest, unauthenticated), each handler
  that depends on \<open>owner_required\<close> (create, list available, get by id, update, delete)
  fails with 403 and leaves the store as it was, for every store and every id: whether a
  row with the id exists plays no part, so a forbidden request for an id that no row has
  is answered with 403, not 404.
\<close>

theorem owner_only_forbidden:
  fixes db :: "('p::linordered_idom) Session"
  assumes "role \<noteq> Owner"
  shows "error_status (fst (create_auto auto db (owner_required role))) = Some 403 \<and>
         snd (create_auto auto db (owner_required role)) = db \<and>
         error_status (fst (show_all_auto db (owner_required role))) = Some 403 \<and>
         snd (show_all_auto db (owner_required role)) = db \<and>
         error_status (fst (show_auto auto_id db (owner_required role))) = Some 403 \<and>
         snd (show_auto auto_id db (owner_required role)) = db \<and>
         error_status (fst (update_auto auto_id auto_update db (owner_required role))) = Some 403 \<and>
         snd (update_auto auto_id auto_update db (owner_required role)) = db \<and>
         error_status (fst (delete_auto auto_id db (owner_required role))) = Some 403 \<and>
         snd (delete_auto auto_id db (owner_required role)) = db"
  using assms
  by (simp add: owner_required_def error_status_def create_auto_def show_all_auto_def
      show_auto_def update_auto_def delete_auto_def)

theorem owner_only_forbidden_witness:
  "Guest \<noteq> Owner \<and> first_by_id 99999 [bmw, tesla] = None \<and>
   error_status (fst (show_auto 99999 [bmw, tesla] (owner_required Guest))) = Some 403 \<and>
   error_status (fst (delete_auto 99999 [bmw, tesla] (owner_required Guest))) = Some 403 \<and>
   snd (delete_auto 99999 [bmw, tesla] (owner_required Guest)) = [bmw, tesla]"
proof -
  have g: "Guest \<noteq> Owner" by simp
  have n: "first_by_id 99999 [bmw, tesla] = None"
    by (simp add: first_by_id_def bmw_def tesla_def)
  note t = owner_only_forbidden [OF g, where db = "[bmw, tesla]" and auto_id = 99999]
  from t g n show ?thesis by simp
qed

subsection \<open>Parameters that are not positive\<close>

text \<open>
  C8, as stated, fails for get by id (and likewise update and delete): \<open>auto_id\<close> is
  declared \<open>auto_id: int\<close> there, with no constraint, so the id \<open>0\<close> reaches the
  lookup and is answered with 404, not 422.
\<close>

theorem show_auto_nonpositive_id_counterexample:
  "show_auto 0 [bmw, tesla] (Inr Owner) =
     (Inl (HTTPException 404 ''Auto with ID 0 not found.''), [bmw, tesla]) \<and>
   error_status (fst (show_auto 0 [bmw, tesla] (Inr Owner))) \<noteq> Some 422"
  by (simp add: show_auto_def first_by_id_def bmw_def tesla_def error_status_def
      str_int_def str_nat.simps)

text \<open>
  C8, amended. \<open>calculate_total_price\<close> rejects an \<open>auto_id\<close> or a
  \<open>mietdauer_stunden\<close> that is not positive with \<open>RequestValidationError\<close> (422),
  whatever the store holds, and leaves the store as it was. Get by id, update and delete
  put no constraint on the id: on a store whose ids are positive an id that is not
  positive is looked up, not found, and answered with 404.
\<close>

theorem nonpositive_parameters:
  fixes db :: "('p::linordered_idom) Session"
  shows "(auto_id \<le> 0 \<or> mietdauer_stunden \<le> 0 \<longrightarrow>
            calculate_total_price auto_id mietdauer_stunden db (Inr u) =
              (Inl RequestValidationError, db)) \<and>
         (wf_store db \<and> auto_id \<le> 0 \<longrightarrow>
            error_status (fst (show_auto auto_id db (Inr u))) = Some 404 \<and>
            snd (show_auto auto_id db (Inr u)) = db \<and>
            error_status (fst (update_auto auto_id auto_update db (Inr u))) = Some 404 \<and>
            snd (update_auto auto_id auto_update db (Inr u)) = db \<and>
            error_status (fst (delete_auto auto_id db (Inr u))) = Some 404 \<and>
            snd (delete_auto auto_id db (Inr u)) = db)"
proof -
  have a: "calculate_total_price auto_id mietdauer_stunden db (Inr u) =
             (Inl RequestValidationError, db)"
    if "auto_id \<le> 0 \<or> mietdauer_stunden \<le> 0"
  proof -
    from that have "\<not> (0 < auto_id \<and> 0 < mietdauer_stunden)" by auto
    then show ?thesis by (simp add: calculate_total_price_def)
  qed
  have b: "error_status (fst (show_auto auto_id db (Inr u))) = Some 404 \<and>
        snd (show_auto auto_id db (Inr u)) = db \<and>
        error_status (fst (update_auto auto_id auto_update db (Inr u))) = Some 404 \<and>
        snd (update_auto auto_id auto_update db (Inr u)) = db \<and>
        error_status (fst (delete_auto auto_id db (Inr u))) = Some 404 \<and>
        snd (delete_auto auto_id db (Inr u)) = db"
    if "wf_store db \<and> auto_id \<le> 0"
  proof -
    from that have "first_by_id auto_id db = None" by (simp add: first_by_id_nonpositive)
    then show ?thesis
      by (simp add: show_auto_def update_auto_def delete_auto_def error_status_def)
  qed
  from a b show ?thesis by blast
qed

theorem nonpositive_parameters_witness:
  "calculate_total_price 1 0 [bmw, tesla] (Inr Owner) = (Inl RequestValidationError, [bmw, tesla]) \<and>
   calculate_total_price 1 (- 5) [bmw, tesla] (Inr Owner) =
     (Inl RequestValidationError, [bmw, tesla]) \<and>
   calculate_total_price 0 5 [bmw, tesla] (Inr Owner) = (Inl RequestValidationError, [bmw, tesla]) \<and>
   wf_store [bmw, tesla] \<and>
   error_status (fst (delete_auto (- 1) [bmw, tesla] (Inr Owner))) = Some 404 \<and>
   snd (delete_auto (- 1) [bmw, tesla] (Inr Owner)) = [bmw, tesla]"
proof -
  have w: "wf_store [bmw, tesla]" by (simp add: wf_store_def bmw_def tesla_def)
  note a = nonpositive_parameters [where db = "[bmw, tesla]" and u = Owner and auto_id = 1
      and mietdauer_stunden = 0]
  note b = nonpositive_parameters [where db = "[bmw, tesla]" and u = Owner and auto_id = 1
      and mietdauer_stunden = "- 5"]
  note c = nonpositive_parameters [where db = "[bmw, tesla]" and u = Owner and auto_id = 0
      and mietdauer_stunden = 5]
  note d = nonpositive_parameters [where db = "[bmw, tesla]" and u = Owner and auto_id = "- 1"]
  from a b c d w show ?thesis by simp
qed

subsection \<open>The search filters\<close>

text \<open>
  A pattern \<open>%t%\<close> whose text \<open>t\<close> holds no wildcard and no escape character
  matches exactly the texts that contain \<open>t\<close>.
\<close>

lemma str_lit_percent: "str_lit ''%'' = [37]"
  by (simp add: str_lit_def)

lemma lower_wrap:
  "lower_char d 37 = 37 \<Longrightarrow>
   lower d (str_lit ''%'' @ t @ str_lit ''%'') = 37 # lower d t @ [37]"
  by (simp add: lower_def str_lit_percent)

lemma like_match_literals:
  "list_all (\<lambda>c. c \<noteq> 37 \<and> c \<noteq> 95 \<and> Some c \<noteq> esc) p \<Longrightarrow>
   like_match esc (p @ q) s = (prefix p s \<and> like_match esc q (drop (length p) s))"
proof (induction p arbitrary: s)
  case Nil
  then show ?case by simp
next
  case (Cons c p)
  then show ?case by (cases s) auto
qed

lemma like_match_percent:
  "esc \<noteq> Some 37 \<Longrightarrow>
   like_match esc (37 # q) s = (\<exists>k\<le>length s. like_match esc q (drop k s))"
proof (induction s)
  case Nil
  then show ?case by auto
next
  case (Cons c s)
  have "(\<exists>k\<le>length (c # s). like_match esc q (drop k (c # s))) =
        (like_match esc q (c # s) \<or> (\<exists>k\<le>length s. like_match esc q (drop k s)))"
  proof
    assume "\<exists>k\<le>length (c # s). like_match esc q (drop k (c # s))"
    then obtain k where k: "k \<le> length (c # s)" "like_match esc q (drop k (c # s))" by blast
    show "like_match esc q (c # s) \<or> (\<exists>k\<le>length s. like_match esc q (drop k s))"
    proof (cases k)
      case 0
      with k show ?thesis by simp
    next
      case (Suc k')
      with k have "k' \<le> length s \<and> like_match esc q (drop k' s)" by simp
      then show ?thesis by blast
    qed
  next
    assume "like_match esc q (c # s) \<or> (\<exists>k\<le>length s. like_match esc q (drop k s))"
    then show "\<exists>k\<le>length (c # s). like_match esc q (drop k (c # s))"
    proof
      assume "like_match esc q (c # s)"
      then have "0 \<le> length (c # s) \<and> like_match esc q (drop 0 (c # s))" by simp
      then show ?thesis by blast
    next
      assume "\<exists>k\<le>length s. like_match esc q (drop k s)"
      then obtain k where "k \<le> length s" "like_match esc q (drop k s)" by blast
      then have "Suc k \<le> length (c # s) \<and> like_match esc q (drop (Suc k) (c # s))" by simp
      then show ?thesis by blast
    qed
  qed
  with Cons show ?case by auto
qed

lemma like_match_only_percent: "esc \<noteq> Some 37 \<Longrightarrow> like_match esc [37] s"
proof -
  assume e: "esc \<noteq> Some 37"
  have "length s \<le> length s \<and> like_match esc [] (drop (length s) s)" by simp
  then have "\<exists>k\<le>length s. like_match esc [] (drop k s)" by blast
  with like_match_percent [OF e, of "[]" s] show ?thesis by blast
qed

lemma sublist_iff_prefix_drop: "sublist p s = (\<exists>k\<le>length s. prefix p (drop k s))"
proof
  assume "sublist p s"
  then obtain ps ss where s: "s = ps @ p @ ss" by (auto simp: sublist_def)
  then have "length ps \<le> length s \<and> prefix p (drop (length ps) s)" by simp
  then show "\<exists>k\<le>length s. prefix p (drop k s)" by blast
next
  assume "\<exists>k\<le>length s. prefix p (drop k s)"
  then obtain k ss where "drop k s = p @ ss" by (auto simp: prefix_def)
  then have "s = take k s @ p @ ss" by (metis append_take_drop_id)
  then show "sublist p s" unfolding sublist_def by blast
qed

lemma like_match_contains:
  assumes "esc \<noteq> Some 37"
    and "list_all (\<lambda>c. c \<noteq> 37 \<and> c \<noteq> 95 \<and> Some c \<noteq> esc) p"
  shows "like_match esc (37 # p @ [37]) s = sublist p s"
proof -
  have "like_match esc (37 # p @ [37]) s =
        (\<exists>k\<le>length s. like_match esc (p @ [37]) (drop k s))"
    using assms(1) by (rule like_match_percent)
  also have "\<dots> = (\<exists>k\<le>length s. prefix p (drop k s))"
    using assms by (simp add: like_match_literals like_match_only_percent)
  also have "\<dots> = sublist p s"
    by (simp add: sublist_iff_prefix_drop)
  finally show ?thesis .
qed

lemma ilike_contains:
  assumes "regular_dialect d" and "like_plain d t"
  shows "ilike d column (str_lit ''%'' @ t @ str_lit ''%'') = sublist (lower d t) (lower d column)"
proof -
  from assms(1) have k: "lower_char d 37 = 37" and e: "like_escape d \<noteq> Some 37"
    by (simp_all add: regular_dialect_def)
  from assms(2)
  have p: "list_all (\<lambda>c. c \<noteq> 37 \<and> c \<noteq> 95 \<and> Some c \<noteq> like_escape d) (lower d t)"
    by (simp add: like_plain_def)
  show ?thesis
    unfolding ilike_def lower_wrap [OF k] using e p by (rule like_match_contains)
qed

lemma text_filter_step:
  assumes "regular_dialect d"
    and "case text_q of None \<Rightarrow> True | Some t \<Rightarrow> like_plain d t"
  shows "(case text_q of
            None \<Rightarrow> query
          | Some t \<Rightarrow>
              if t \<noteq> [] then
                filter (\<lambda>a. ilike d (col a) (str_lit ''%'' @ t @ str_lit ''%'')) query
              else query) =
         filter (\<lambda>a. case text_q of None \<Rightarrow> True
                     | Some t \<Rightarrow> sublist (lower d t) (lower d (col a))) query"
proof (cases text_q)
  case None
  then show ?thesis by simp
next
  case (Some t)
  show ?thesis
  proof (cases "t = []")
    case True
    with Some show ?thesis by (simp add: lower_def)
  next
    case False
    from assms(2) Some have "like_plain d t" by simp
    with assms(1)
    have "\<And>a. ilike d (col a) (str_lit ''%'' @ t @ str_lit ''%'') =
              sublist (lower d t) (lower d (col a))"
      by (rule ilike_contains)
    with Some False show ?thesis by simp
  qed
qed

lemma jahr_filter_step:
  assumes "jahr_q \<noteq> Some 0"
  shows "(case jahr_q of
            None \<Rightarrow> query
          | Some j \<Rightarrow> if j \<noteq> 0 then filter (\<lambda>a. jahr a = j) query else query) =
         filter (\<lambda>a. case jahr_q of None \<Rightarrow> True | Some j \<Rightarrow> jahr a = j) query"
  using assms by (cases jahr_q) auto

lemma status_filter_step:
  "(case status_q of None \<Rightarrow> query | Some s \<Rightarrow> filter (\<lambda>a. status a = s) query) =
   filter (\<lambda>a. case status_q of None \<Rightarrow> True | Some s \<Rightarrow> status a = s) query"
  by (cases status_q) auto

lemma search_query_matches_spec:
  assumes "regular_dialect d"
    and "case brand_q of None \<Rightarrow> True | Some b \<Rightarrow> like_plain d b"
    and "case model_q of None \<Rightarrow> True | Some m \<Rightarrow> like_plain d m"
    and "jahr_q \<noteq> Some 0"
  shows "search_query d brand_q model_q jahr_q status_q db =
         filter (matches_spec d brand_q model_q jahr_q status_q) db"
proof -
  have "search_query d brand_q model_q jahr_q status_q db =
        filter (\<lambda>a. case status_q of None \<Rightarrow> True | Some s \<Rightarrow> status a = s)
          (filter (\<lambda>a. case jahr_q of None \<Rightarrow> True | Some j \<Rightarrow> jahr a = j)
            (filter (\<lambda>a. case model_q of None \<Rightarrow> True
                          | Some m \<Rightarrow> sublist (lower d m) (lower d (model a)))
              (filter (\<lambda>a. case brand_q of None \<Rightarrow> True
                            | Some b \<Rightarrow> sublist (lower d b) (lower d (brand a))) db)))"
    unfolding search_query_def Let_def
    by (simp only: text_filter_step [OF assms(1) assms(2)] text_filter_step [OF assms(1) assms(3)]
        jahr_filter_step [OF assms(4)] status_filter_step)
  also have "\<dots> = filter (matches_spec d brand_q model_q jahr_q status_q) db"
    unfolding matches_spec_def by (simp add: conj_commute conj_left_commute cong: filter_cong)
  finally show ?thesis .
qed

text \<open>
  With plain filter texts and a year that passes the validation, \<open>search_auto\<close>
  returns the rows that satisfy every supplied filter in the spec's reading, or 404 when
  there is none.
\<close>

lemma search_auto_plain_filters:
  assumes "regular_dialect d"
    and "case brand_q of None \<Rightarrow> True | Some b \<Rightarrow> like_plain d b"
    and "case model_q of None \<Rightarrow> True | Some m \<Rightarrow> like_plain d m"
    and "case jahr_q of None \<Rightarrow> True | Some j \<Rightarrow> 2000 \<le> j \<and> j \<le> now_year"
  shows "search_auto now_year d brand_q model_q jahr_q status_q db (Inr u) =
           (let result = filter (matches_spec d brand_q model_q jahr_q status_q) db
            in if result = [] then Inl (HTTPException 404 ''No matching autos found.'')
               else Inr result, db)"
proof -
  from assms(4) have "jahr_q \<noteq> Some 0" by auto
  with assms(1,2,3) have "search_query d brand_q model_q jahr_q status_q db =
      filter (matches_spec d brand_q model_q jahr_q status_q) db"
    by (simp add: search_query_matches_spec)
  with assms(4) show ?thesis by (simp add: search_auto_def Let_def)
qed


subsection \<open>Listing and searching with no result\<close>




subsection \<open>Search with a wildcard in the filter text\<close>

text \<open>
  C7. The claim says that \<open>brand\<close> and \<open>model\<close> match as substrings. The query puts
  the text between two \<open>%\<close> and hands it to \<open>ilike\<close> with nothing escaped, so a
  \<open>_\<close> or a \<open>%\<close> in the text is a wildcard: \<open>brand = "_"\<close> selects every row
  whose brand has at least one character. Both cars are returned, and neither brand
  contains \<open>_\<close>: no row satisfies the filter in the spec's reading, for which the
  claim asks 404.
\<close>

theorem search_auto_wildcard_underscore:
  "search_auto 2025 sqlite (Some (str_lit ''_'')) None None None [bmw, tesla] (Inr Customer) =
     (Inr [bmw, tesla], [bmw, tesla]) \<and>
   \<not> sublist (lower sqlite (str_lit ''_'')) (lower sqlite (brand bmw)) \<and>
   \<not> sublist (lower sqlite (str_lit ''_'')) (lower sqlite (brand tesla)) \<and>
   filter (matches_spec sqlite (Some (str_lit ''_'')) None None None) [bmw, tesla] = []"
  by code_simp

text \<open>
  The same holds on every database whose case folding keeps \<open>%\<close> and \<open>_\<close> and
  whose escape character is neither: the pattern \<open>%_%\<close> matches every text that is
  not empty.
\<close>

lemma ilike_underscore:
  assumes "lower_char d 37 = 37" and "lower_char d 95 = 95"
    and "like_escape d \<noteq> Some 37" and "like_escape d \<noteq> Some 95"
  shows "ilike d column (str_lit ''%_%'') = (column \<noteq> [])"
proof -
  let ?e = "like_escape d"
  have one: "like_match ?e [95, 37] s = (s \<noteq> [])" for s
    using assms(3,4) by (cases s) (simp_all add: like_match_only_percent)
  have "ilike d column (str_lit ''%_%'') = like_match ?e (37 # [95, 37]) (lower d column)"
    using assms(1,2) by (simp add: ilike_def lower_def str_lit_def)
  also have "\<dots> = (\<exists>k\<le>length (lower d column). like_match ?e [95, 37] (drop k (lower d column)))"
    using assms(3) by (rule like_match_percent)
  also have "\<dots> = (\<exists>k\<le>length column. \<not> length column \<le> k)"
    by (simp add: one lower_def)
  also have "\<dots> = (column \<noteq> [])"
  proof (cases column)
    case Nil
    then show ?thesis by simp
  next
    case (Cons c cs)
    have "0 \<le> length (c # cs) \<and> \<not> length (c # cs) \<le> 0" by simp
    then have "\<exists>k\<le>length (c # cs). \<not> length (c # cs) \<le> k" by blast
    with Cons show ?thesis by simp
  qed
  finally show ?thesis .
qed

text \<open>
  A \<open>_\<close> stands for one character, whatever its encoding: the pattern \<open>%a_b%\<close>
  matches \<open>a\<close>, the letter of code point 352, \<open>b\<close>, and \<open>%__%\<close> does not match
  that letter alone.
\<close>

lemma like_underscore_one_character:
  "ilike sqlite [97, 352, 98] (str_lit ''%a_b%'') \<and> \<not> ilike sqlite [352] (str_lit ''%__%'')"
  by (simp add: ilike_def lower_def sqlite_def ascii_lower_def str_lit_def)

subsection \<open>Search without filters and with empty text filters\<close>

text \<open>
  C9. With no filter supplied, \<open>search_auto\<close> returns every row of the store, and fails
  with 404 exactly when the store is empty.
\<close>

theorem search_auto_without_filters:
  "search_auto now_year d None None None None db (Inr u) =
     (if db = [] then Inl (HTTPException 404 ''No matching autos found.'') else Inr db, db)"
  by (simp add: search_auto_def search_query_def)

theorem search_auto_without_filters_witness:
  "search_auto 2025 sqlite None None None None [bmw, tesla] (Inr Customer) =
     (Inr [bmw, tesla], [bmw, tesla]) \<and>
   search_auto 2025 sqlite None None None None ([] :: int Session) (Inr Customer) =
     (Inl (HTTPException 404 ''No matching autos found.''), [])"
  using search_auto_without_filters [of 2025 sqlite "[bmw, tesla]" Customer]
    search_auto_without_filters [of 2025 sqlite "[] :: int Session" Customer]
  by simp

lemma search_query_empty_brand:
  "search_query d (Some []) model_q jahr_q status_q db =
     search_query d None model_q jahr_q status_q db"
  by (simp add: search_query_def)

lemma search_query_empty_model:
  "search_query d brand_q (Some []) jahr_q status_q db =
     search_query d brand_q None jahr_q status_q db"
  by (simp add: search_query_def)

text \<open>
  C10. \<open>search_auto\<close> with \<open>brand\<close> the empty string gives the result of
  \<open>search_auto\<close> with \<open>brand\<close> omitted, for every store and every other argument,
  and the same holds for \<open>model\<close>: an empty text filter is not applied.
\<close>

theorem search_auto_empty_text_filter:
  "search_auto now_year d (Some []) model_q jahr_q status_q db current_user =
     search_auto now_year d None model_q jahr_q status_q db current_user \<and>
   search_auto now_year d brand_q (Some []) jahr_q status_q db current_user =
     search_auto now_year d brand_q None jahr_q status_q db current_user"
  unfolding search_auto_def search_query_empty_brand search_query_empty_model by simp

theorem search_auto_empty_text_filter_witness:
  "search_auto 2025 sqlite (Some (str_lit '''')) None None (Some False) [bmw, tesla] (Inr Customer) =
     search_auto 2025 sqlite None None None (Some False) [bmw, tesla] (Inr Customer) \<and>
   search_auto 2025 sqlite None None None (Some False) [bmw, tesla] (Inr Customer) =
     (Inr [tesla], [bmw, tesla])"
proof -
  have "search_auto 2025 sqlite None None None (Some False) [bmw, tesla] (Inr Customer) =
     (Inr [tesla], [bmw, tesla])"
    by (simp add: search_auto_def search_query_def Let_def bmw_def tesla_def)
  with search_auto_empty_text_filter [of 2025 sqlite None None "Some False" "[bmw, tesla]"
      "Inr Customer" None]
  show ?thesis by (simp add: str_lit_def)
qed

end
